theory Spec2Isabelle
  imports Main
begin

section \<open>Strings\<close>

text \<open>
  A Python \<open>str\<close> is modelled as a HOL \<open>string\<close> holding its UTF-8 bytes. The
  two string operations of \<open>evaluate.py\<close> search for ASCII text only
  (\<open>'Assertion failed' in error_message\<close> and \<open>task_id.replace("/", "-")\<close>); an
  ASCII byte never occurs inside a multi-byte UTF-8 sequence, so both give the same
  answer on bytes as on code points.
\<close>

text \<open>\<open>s.startswith(p)\<close>, the test at one position of Python's substring search.\<close>

fun startswith :: "string \<Rightarrow> string \<Rightarrow> bool" where
  "startswith s [] = True"
| "startswith [] (p # ps) = False"
| "startswith (c # cs) (p # ps) = (c = p \<and> startswith cs ps)"

text \<open>\<open>needle in hay\<close> on strings: is there a position of \<open>hay\<close> where \<open>needle\<close> starts?\<close>

fun str_contains :: "string \<Rightarrow> string \<Rightarrow> bool" where
  "str_contains needle [] = (needle = [])"
| "str_contains needle (c # cs) = (startswith (c # cs) needle \<or> str_contains needle cs)"

section \<open>The result counters\<close>

text \<open>
  \<^verbatim>\<open>
  @dataclass
  class EvaluationResult:
      total: int = 0
      correct: int = 0
      failed: int = 0
      assertion_failed: int = 0
  \<close>
  Python integers are unbounded, hence \<open>int\<close>.
\<close>

record EvaluationResult =
  total :: int
  correct :: int
  failed :: int
  assertion_failed :: int

text \<open>The value of \<open>EvaluationResult()\<close>: every field at its default.\<close>

definition EvaluationResult_init :: EvaluationResult where
  "EvaluationResult_init = \<lparr>total = 0, correct = 0, failed = 0, assertion_failed = 0\<rparr>"

text \<open>The property \<open>exception_failed\<close>: \<open>return self.failed - self.assertion_failed\<close>.\<close>

definition exception_failed :: "EvaluationResult \<Rightarrow> int" where
  "exception_failed self = failed self - assertion_failed self"

text \<open>
  \<^verbatim>\<open>
  def update_counts(self, error_message: str):
      self.total += 1
      if not error_message:
          self.correct += 1
      else:
          self.failed += 1
          if 'Assertion failed' in error_message:
              self.assertion_failed += 1
  \<close>
  The method mutates \<open>self\<close>; the model returns the updated record.
\<close>

definition update_counts :: "EvaluationResult \<Rightarrow> string \<Rightarrow> EvaluationResult" where
  "update_counts self error_message =
     (let self = self\<lparr>total := total self + 1\<rparr> in
      if error_message = [] then self\<lparr>correct := correct self + 1\<rparr>
      else
        (let self = self\<lparr>failed := failed self + 1\<rparr> in
         if str_contains ''Assertion failed'' error_message
         then self\<lparr>assertion_failed := assertion_failed self + 1\<rparr>
         else self))"

text \<open>
  \<open>s.replace(old, new)\<close>: every non-overlapping occurrence of \<open>old\<close>, found from the
  left, is replaced. \<open>replace_scan\<close> is the scan for a non-empty \<open>old\<close>; with an empty
  \<open>old\<close> Python puts \<open>new\<close> before every character and at the end.
\<close>

function replace_scan :: "string \<Rightarrow> string \<Rightarrow> string \<Rightarrow> string" where
  "replace_scan old new [] = []"
| "replace_scan old new (c # cs) =
     (if old \<noteq> [] \<and> startswith (c # cs) old
      then new @ replace_scan old new (drop (length old) (c # cs))
      else c # replace_scan old new cs)"
  by pat_completeness auto
termination
  by (relation "measure (\<lambda>(old, new, s). length s)") (auto simp: neq_Nil_conv)

definition str_replace :: "string \<Rightarrow> string \<Rightarrow> string \<Rightarrow> string" where
  "str_replace s old new =
     (if old = [] then new @ concat (map (\<lambda>c. c # new) s) else replace_scan old new s)"

text \<open>\<open>s.split(sep)\<close> for a one-character separator; \<open>''.split('/')\<close> is \<open>['']\<close>.\<close>

fun str_split :: "string \<Rightarrow> char \<Rightarrow> string list" where
  "str_split [] sep = [[]]"
| "str_split (c # cs) sep =
     (if c = sep then [] # str_split cs sep
      else (case str_split cs sep of
              [] \<Rightarrow> [[c]]
            | w # ws \<Rightarrow> (c # w) # ws))"

text \<open>\<open>sep.join(parts)\<close>.\<close>

fun str_join :: "string \<Rightarrow> string list \<Rightarrow> string" where
  "str_join sep [] = []"
| "str_join sep [x] = x"
| "str_join sep (x # y # ys) = x @ sep @ str_join sep (y # ys)"

text \<open>\<open>str(n)\<close> for an integer: its decimal digits, with a minus sign when negative.\<close>

definition digit_char :: "nat \<Rightarrow> char" where
  "digit_char d = ''0123456789'' ! (d mod 10)"

function str_nat :: "nat \<Rightarrow> string" where
  "str_nat n = (if n < 10 then [digit_char n] else str_nat (n div 10) @ [digit_char (n mod 10)])"
  by pat_completeness auto
termination
  by (relation "measure (\<lambda>n. n)") auto

definition str_int :: "int \<Rightarrow> string" where
  "str_int i = (if i < 0 then CHR ''-'' # str_nat (nat (- i)) else str_nat (nat i))"

section \<open>Paths\<close>

text \<open>
  \<open>pathlib.Path\<close> on a POSIX system, as CPython 3.12 implements it: a path object
  keeps the raw segments it was built from, \<open>/\<close> appends a segment, and the
  segments are joined with \<open>posixpath.join\<close> and parsed when the path is rendered
  (\<open>str(path)\<close>, which is also what \<open>open\<close> passes to the operating system).
\<close>

type_synonym path = "string list"

definition Path :: "string \<Rightarrow> path" where
  "Path s = [s]"

definition truediv :: "path \<Rightarrow> string \<Rightarrow> path" where
  "truediv self key = self @ [key]"

text \<open>
  \<^verbatim>\<open>
  def join(a, *p):
      path = a
      for b in p:
          if b.startswith(sep): path = b
          elif not path or path.endswith(sep): path += b
          else: path += sep + b
      return path
  \<close>
\<close>

definition join_step :: "string \<Rightarrow> string \<Rightarrow> string" where
  "join_step path b =
     (if startswith b ''/'' then b
      else if path = [] \<or> last path = CHR ''/'' then path @ b
      else path @ ''/'' @ b)"

definition posixpath_join :: "string \<Rightarrow> string list \<Rightarrow> string" where
  "posixpath_join a p = foldl join_step a p"

text \<open>
  \<^verbatim>\<open>
  def splitroot(p):
      if p[:1] != sep: return empty, empty, p
      elif p[1:2] != sep or p[2:3] == sep: return empty, sep, p[1:]
      else: return empty, p[:2], p[2:]
  \<close>
  The drive is always empty on POSIX; the model returns the root and the rest.
\<close>

definition splitroot :: "string \<Rightarrow> string \<times> string" where
  "splitroot p =
     (if take 1 p \<noteq> ''/'' then ([], p)
      else if take 1 (drop 1 p) \<noteq> ''/'' \<or> take 1 (drop 2 p) = ''/'' then (''/'', drop 1 p)
      else (take 2 p, drop 2 p))"

text \<open>
  \<open>_parse_path\<close>: the root, and the components of the rest that are neither empty
  nor \<open>.\<close>.
\<close>

definition parse_path :: "string \<Rightarrow> string \<times> string list" where
  "parse_path p =
     (if p = [] then ([], [])
      else (let (root, rel) = splitroot p
            in (root, filter (\<lambda>x. x \<noteq> [] \<and> x \<noteq> ''.'') (str_split rel CHR ''/''))))"

text \<open>\<open>_load_parts\<close>: join the raw segments, then parse.\<close>

definition load_parts :: "path \<Rightarrow> string \<times> string list" where
  "load_parts self =
     parse_path (case self of
                   [] \<Rightarrow> []
                 | [s] \<Rightarrow> s
                 | a # p \<Rightarrow> posixpath_join a p)"

text \<open>\<open>str(path)\<close>: root and components joined by \<open>/\<close>, or \<open>.\<close> when that is empty.\<close>

definition path_str :: "path \<Rightarrow> string" where
  "path_str self =
     (let (root, tail) = load_parts self;
          s = root @ str_join ''/'' tail
      in if s = [] then ''.'' else s)"

text \<open>
  \<^verbatim>\<open>
  PROJECT_ROOT = Path("")
  BASE_RESULTS_PATH = PROJECT_ROOT / "results-cleaned"
  DATA_FILE = PROJECT_ROOT / "humaneval_js.jsonl"
  LLM_MODELS = []
  \<close>
\<close>

definition PROJECT_ROOT :: path where
  "PROJECT_ROOT = Path []"

definition BASE_RESULTS_PATH :: path where
  "BASE_RESULTS_PATH = truediv PROJECT_ROOT ''results-cleaned''"

definition DATA_FILE :: path where
  "DATA_FILE = truediv PROJECT_ROOT ''humaneval_js.jsonl''"

definition LLM_MODELS :: "string list" where
  "LLM_MODELS = []"

section \<open>The world outside the script\<close>

text \<open>
  A call into the operating system or a library either returns a value, raises an
  exception, or never returns (\<open>subprocess.run\<close> is called without a timeout).
\<close>

datatype py_exception =
  FileNotFoundError | PermissionError | IsADirectoryError | UnicodeDecodeError
  | ValueError | ZeroDivisionError | OverflowError

datatype 'a outcome = Returns 'a | Raises py_exception | Hangs

text \<open>
  What the script does to the outside, in order: a line printed, and a call of
  \<open>subprocess.run\<close> with its argument vector.
\<close>

datatype event = Print string | SubprocessRun "string list"

type_synonym trace = "event list"

text \<open>The fields of \<open>subprocess.CompletedProcess\<close> under \<open>capture_output=True\<close>.\<close>

record CompletedProcess =
  returncode :: int
  stdout :: string
  stderr :: string

text \<open>One row of the data frame: the columns \<open>task_id\<close> and \<open>test\<close>.\<close>

record Task =
  task_id :: string
  test :: string

text \<open>
  The outside world is a parameter. Each operation may depend on everything the
  script has done so far (the trace), so that the same file or program may answer
  differently at different times.
  \<^item> \<open>open_read tr p\<close>: \<open>with open(p, "r", encoding="utf-8") as f: f.read()\<close>;
  \<^item> \<open>subprocess_run tr argv\<close>:
    \<open>subprocess.run(argv, capture_output=True, text=True, encoding='utf-8')\<close>;
  \<^item> \<open>read_json tr p\<close>: \<open>pd.read_json(p, lines=True)\<close>, as the list of its rows;
  \<^item> \<open>format_2f x\<close>: the rendering \<open>f"{x:.2f}"\<close> of a rate;
  \<^item> \<open>int_max_str_digits\<close>: \<open>sys.get_int_max_str_digits()\<close>, the longest integer
    that may be converted to decimal text (4300 by default since Python 3.11), or
    0 when there is no limit.
\<close>

text \<open>
  A Python \<open>float\<close> is an IEEE double. Its numeric value is not modelled: a double
  is named by the operations that produce it, \<open>TrueDiv a b\<close> for the correctly
  rounded quotient \<open>a / b\<close> of two integers and \<open>Times x n\<close> for the product
  \<open>x * n\<close> of a double and an integer. Nothing is assumed about rounding.
\<close>

datatype py_float = TrueDiv int int | Times py_float int

datatype py_number = PyInt int | PyFloat py_float

record runtime =
  open_read :: "trace \<Rightarrow> string \<Rightarrow> string outcome"
  subprocess_run :: "trace \<Rightarrow> string list \<Rightarrow> CompletedProcess outcome"
  read_json :: "trace \<Rightarrow> string \<Rightarrow> Task list outcome"
  format_2f :: "py_number \<Rightarrow> string"
  int_max_str_digits :: nat

section \<open>Running one program\<close>

text \<open>
  \<^verbatim>\<open>
  def execute_js_test(test_code: str) -> str:
      process = subprocess.run(['node', '-e', test_code],
          capture_output=True, text=True, encoding='utf-8')
      return process.stderr
  \<close>
\<close>

definition execute_js_test :: "runtime \<Rightarrow> string \<Rightarrow> trace \<Rightarrow> trace \<times> string outcome" where
  "execute_js_test rt test_code tr =
     (let argv = [''node'', ''-e'', test_code] in
      (tr @ [SubprocessRun argv],
       case subprocess_run rt tr argv of
         Returns process \<Rightarrow> Returns (stderr process)
       | Raises e \<Rightarrow> Raises e
       | Hangs \<Rightarrow> Hangs))"

section \<open>Evaluating one model\<close>

text \<open>
  \<^verbatim>\<open>
  def evaluate_model(model_name: str, df: pd.DataFrame) -> EvaluationResult:
      results = EvaluationResult()
      model_path = BASE_RESULTS_PATH / model_name
      for _, row in df.iterrows():
          task_id = row.task_id.replace("/", "-")
          file_path = model_path / f"{task_id}.js"
          try:
              with file_path.open("r", encoding="utf-8") as f:
                  llm_response = f.read()
          except FileNotFoundError:
              print(f"Warning: File not found, skipping: {file_path}")
              continue
          test_code = f"{llm_response}\n\n{row.test}"
          error_output = execute_js_test(test_code)
          results.update_counts(error_output)
      return results
  \<close>
  \<open>candidate_path\<close> is the value of \<open>file_path\<close> for one row, \<open>evaluate_rows\<close> is the
  loop, with the rows still to visit, the counters and the trace so far. An
  exception other than \<open>FileNotFoundError\<close> from reading, and any exception from
  \<open>execute_js_test\<close>, is not caught and ends the loop.
\<close>

definition candidate_path :: "path \<Rightarrow> Task \<Rightarrow> path" where
  "candidate_path model_path row =
     (let task_id = str_replace (task_id row) ''/'' ''-''
      in truediv model_path (task_id @ ''.js''))"

fun evaluate_rows ::
  "runtime \<Rightarrow> path \<Rightarrow> Task list \<Rightarrow> EvaluationResult \<Rightarrow> trace \<Rightarrow> trace \<times> EvaluationResult outcome"
where
  "evaluate_rows rt model_path [] results tr = (tr, Returns results)"
| "evaluate_rows rt model_path (row # rows) results tr =
     (let file_path = candidate_path model_path row in
      case open_read rt tr (path_str file_path) of
        Raises e \<Rightarrow>
          if e = FileNotFoundError
          then evaluate_rows rt model_path rows results
                 (tr @ [Print (''Warning: File not found, skipping: '' @ path_str file_path)])
          else (tr, Raises e)
      | Hangs \<Rightarrow> (tr, Hangs)
      | Returns llm_response \<Rightarrow>
          (let test_code = llm_response @ [CHR 0x0A, CHR 0x0A] @ test row in
           case execute_js_test rt test_code tr of
             (tr', Returns error_output) \<Rightarrow>
               evaluate_rows rt model_path rows (update_counts results error_output) tr'
           | (tr', Raises e) \<Rightarrow> (tr', Raises e)
           | (tr', Hangs) \<Rightarrow> (tr', Hangs)))"

definition evaluate_model ::
  "runtime \<Rightarrow> string \<Rightarrow> Task list \<Rightarrow> trace \<Rightarrow> trace \<times> EvaluationResult outcome"
where
  "evaluate_model rt model_name df tr =
     (let results = EvaluationResult_init;
          model_path = truediv BASE_RESULTS_PATH model_name
      in evaluate_rows rt model_path df results tr)"

section \<open>The summary\<close>

text \<open>
  Python's \<open>a / b\<close> on integers. A zero divisor raises \<open>ZeroDivisionError\<close>.
  Otherwise the quotient is rounded to the nearest double, ties to even, and
  \<open>OverflowError\<close> is raised when that is beyond the largest double
  \<open>2^1024 - 2^971\<close>, that is, when \<open>|a / b| \<ge> 2^1024 - 2^970\<close>.
\<close>

definition truediv_overflows :: "int \<Rightarrow> int \<Rightarrow> bool" where
  "truediv_overflows a b \<longleftrightarrow> (2 ^ 1024 - 2 ^ 970) * \<bar>b\<bar> \<le> \<bar>a\<bar>"

definition py_truediv :: "int \<Rightarrow> int \<Rightarrow> py_float outcome" where
  "py_truediv a b =
     (if b = 0 then Raises ZeroDivisionError
      else if truediv_overflows a b then Raises OverflowError
      else Returns (TrueDiv a b))"

text \<open>
  \<^verbatim>\<open>
  pass_rate = (results.correct / results.total * 100) if results.total > 0 else 0
  exception_rate = (results.exception_failed / results.failed * 100) if results.failed > 0 else 0
  \<close>
  The product of a double and 100 never raises (beyond the range it is infinite).
  The \<open>else\<close> value is the integer 0.
\<close>

definition pass_rate :: "EvaluationResult \<Rightarrow> py_number outcome" where
  "pass_rate results =
     (if total results > 0
      then (case py_truediv (correct results) (total results) of
              Returns q \<Rightarrow> Returns (PyFloat (Times q 100))
            | Raises e \<Rightarrow> Raises e
            | Hangs \<Rightarrow> Hangs)
      else Returns (PyInt 0))"

definition exception_rate :: "EvaluationResult \<Rightarrow> py_number outcome" where
  "exception_rate results =
     (if failed results > 0
      then (case py_truediv (exception_failed results) (failed results) of
              Returns q \<Rightarrow> Returns (PyFloat (Times q 100))
            | Raises e \<Rightarrow> Raises e
            | Hangs \<Rightarrow> Hangs)
      else Returns (PyInt 0))"

text \<open>
  \<open>f"{i}"\<close> for an integer: its decimal text, or \<open>ValueError\<close> when it has more
  digits (the sign not counted) than the limit allows.
\<close>

definition format_int :: "runtime \<Rightarrow> int \<Rightarrow> string outcome" where
  "format_int rt i =
     (if 0 < int_max_str_digits rt \<and> int_max_str_digits rt < length (str_nat (nat \<bar>i\<bar>))
      then Raises ValueError
      else Returns (str_int i))"

text \<open>A line made of a fixed label and an integer.\<close>

definition labelled :: "runtime \<Rightarrow> string \<Rightarrow> int \<Rightarrow> string outcome" where
  "labelled rt label i =
     (case format_int rt i of
        Returns s \<Rightarrow> Returns (label @ s)
      | Raises e \<Rightarrow> Raises e
      | Hangs \<Rightarrow> Hangs)"

text \<open>
  \<^verbatim>\<open>
  print("-" * 60)
  print(f"Results for model: {model_name}")
  print("-" * 60)
  print(f"Strict accuracy:           {pass_rate:.2f} %")
  print(f" Total entries validated:  {results.total}")
  print(f" Successful:               {results.correct}")
  print(f" Failed (Total):           {results.failed}")
  print(f"  - Assertion Errors:      {results.assertion_failed}")
  print(f"  - Exception Errors:      {results.exception_failed} ({exception_rate:.2f} % of all failures)")
  print("-" * 60)
  \<close>
  \<open>summary_lines\<close> is the text of each line, or the exception that building it
  raises; \<open>print_lines\<close> prints them in order and stops at the first one that cannot
  be built, with the lines before it already printed.
\<close>

definition summary_lines ::
  "runtime \<Rightarrow> string \<Rightarrow> EvaluationResult \<Rightarrow> py_number \<Rightarrow> py_number \<Rightarrow> string outcome list"
where
  "summary_lines rt model_name results pr er =
     [Returns (replicate 60 CHR ''-''),
      Returns (''Results for model: '' @ model_name),
      Returns (replicate 60 CHR ''-''),
      Returns (''Strict accuracy:           '' @ format_2f rt pr @ '' %''),
      labelled rt '' Total entries validated:  '' (total results),
      labelled rt '' Successful:               '' (correct results),
      labelled rt '' Failed (Total):           '' (failed results),
      labelled rt ''  - Assertion Errors:      '' (assertion_failed results),
      (case labelled rt ''  - Exception Errors:      '' (exception_failed results) of
         Returns s \<Rightarrow> Returns (s @ '' ('' @ format_2f rt er @ '' % of all failures)'')
       | Raises e \<Rightarrow> Raises e
       | Hangs \<Rightarrow> Hangs),
      Returns (replicate 60 CHR ''-'')]"

fun print_lines :: "string outcome list \<Rightarrow> trace \<Rightarrow> trace \<times> unit outcome" where
  "print_lines [] tr = (tr, Returns ())"
| "print_lines (Returns s # rest) tr = print_lines rest (tr @ [Print s])"
| "print_lines (Raises e # rest) tr = (tr, Raises e)"
| "print_lines (Hangs # rest) tr = (tr, Hangs)"

definition print_summary ::
  "runtime \<Rightarrow> string \<Rightarrow> EvaluationResult \<Rightarrow> trace \<Rightarrow> trace \<times> unit outcome"
where
  "print_summary rt model_name results tr =
     (case pass_rate results of
        Raises e \<Rightarrow> (tr, Raises e)
      | Hangs \<Rightarrow> (tr, Hangs)
      | Returns pr \<Rightarrow>
          (case exception_rate results of
             Raises e \<Rightarrow> (tr, Raises e)
           | Hangs \<Rightarrow> (tr, Hangs)
           | Returns er \<Rightarrow> print_lines (summary_lines rt model_name results pr er) tr))"

section \<open>The entry point\<close>

text \<open>
  \<^verbatim>\<open>
  def main():
      try:
          df = pd.read_json(DATA_FILE, lines=True)
      except FileNotFoundError:
          print(f"Error: The data file '{DATA_FILE}' was not found.")
          return
      for llm in LLM_MODELS:
          model_results = evaluate_model(llm, df)
          print_summary(llm, model_results)
  \<close>
  \<open>evaluate_models\<close> is the loop over the models. \<open>main_with\<close> is \<open>main\<close> with the
  configured list as a parameter, so that a configuration other than the shipped,
  empty one can be stated; \<open>main\<close> runs it on \<open>LLM_MODELS\<close>.
\<close>

fun evaluate_models :: "runtime \<Rightarrow> Task list \<Rightarrow> string list \<Rightarrow> trace \<Rightarrow> trace \<times> unit outcome" where
  "evaluate_models rt df [] tr = (tr, Returns ())"
| "evaluate_models rt df (llm # llms) tr =
     (case evaluate_model rt llm df tr of
        (tr1, Raises e) \<Rightarrow> (tr1, Raises e)
      | (tr1, Hangs) \<Rightarrow> (tr1, Hangs)
      | (tr1, Returns model_results) \<Rightarrow>
          (case print_summary rt llm model_results tr1 of
             (tr2, Raises e) \<Rightarrow> (tr2, Raises e)
           | (tr2, Hangs) \<Rightarrow> (tr2, Hangs)
           | (tr2, Returns u) \<Rightarrow> evaluate_models rt df llms tr2))"

definition main_with :: "runtime \<Rightarrow> string list \<Rightarrow> trace \<Rightarrow> trace \<times> unit outcome" where
  "main_with rt models tr =
     (case read_json rt tr (path_str DATA_FILE) of
        Raises e \<Rightarrow>
          if e = FileNotFoundError
          then (tr @ [Print (''Error: The data file '' @ [CHR 0x27] @ path_str DATA_FILE
                              @ [CHR 0x27] @ '' was not found.'')],
                Returns ())
          else (tr, Raises e)
      | Hangs \<Rightarrow> (tr, Hangs)
      | Returns df \<Rightarrow> evaluate_models rt df models tr)"

definition main :: "runtime \<Rightarrow> trace \<Rightarrow> trace \<times> unit outcome" where
  "main rt tr = main_with rt LLM_MODELS tr"

section \<open>A concrete world\<close>

text \<open>
  The task of the scenarios in the specification, and a world built around it: the
  dataset file \<open>humaneval_js.jsonl\<close> loads as \<open>dataset\<close>, the candidate file of model
  \<open>gpt\<close> for that task reads as \<open>candidate\<close> and no other file exists, and every
  program run ends as \<open>process\<close>.
\<close>

definition task0 :: Task where
  "task0 = \<lparr>task_id = ''HumanEval/0'', test = ''assert(1===1);''\<rparr>"

definition example_runtime ::
  "Task list outcome \<Rightarrow> string outcome \<Rightarrow> CompletedProcess outcome \<Rightarrow> runtime" where
  "example_runtime dataset candidate process =
     \<lparr>open_read = (\<lambda>tr p. if p = ''results-cleaned/gpt/HumanEval-0.js'' then candidate
                            else Raises FileNotFoundError),
      subprocess_run = (\<lambda>tr argv. process),
      read_json = (\<lambda>tr p. if p = ''humaneval_js.jsonl'' then dataset
                            else Raises FileNotFoundError),
      format_2f = (\<lambda>x. ''0.00''),
      int_max_str_digits = 4300\<rparr>"

text \<open>A second task, whose candidate file does not exist in that world.\<close>

definition task1 :: Task where
  "task1 = \<lparr>task_id = ''HumanEval/1'', test = ''assert(2===2);''\<rparr>"

section \<open>Substring search\<close>

lemma startswith_iff_append: "startswith s p \<longleftrightarrow> (\<exists>suf. s = p @ suf)"
  by (induction s p rule: startswith.induct) auto

lemma str_contains_iff_append:
  "str_contains needle hay \<longleftrightarrow> (\<exists>pre suf. hay = pre @ needle @ suf)"
proof (induction hay)
  case Nil
  then show ?case by auto
next
  case (Cons c cs)
  have "(\<exists>pre suf. c # cs = pre @ needle @ suf) \<longleftrightarrow>
        (\<exists>suf. c # cs = needle @ suf) \<or> (\<exists>pre suf. cs = pre @ needle @ suf)"
  proof
    assume "\<exists>pre suf. c # cs = pre @ needle @ suf"
    then obtain pre suf where e: "c # cs = pre @ needle @ suf" by blast
    show "(\<exists>suf. c # cs = needle @ suf) \<or> (\<exists>pre suf. cs = pre @ needle @ suf)"
    proof (cases pre)
      case Nil
      with e show ?thesis by auto
    next
      case (Cons d ds)
      with e have "cs = ds @ needle @ suf" by simp
      then show ?thesis by blast
    qed
  next
    assume "(\<exists>suf. c # cs = needle @ suf) \<or> (\<exists>pre suf. cs = pre @ needle @ suf)"
    then show "\<exists>pre suf. c # cs = pre @ needle @ suf"
    proof
      assume "\<exists>suf. c # cs = needle @ suf"
      then obtain suf where "c # cs = [] @ needle @ suf" by auto
      then show ?thesis by blast
    next
      assume "\<exists>pre suf. cs = pre @ needle @ suf"
      then obtain pre suf where "c # cs = (c # pre) @ needle @ suf" by auto
      then show ?thesis by blast
    qed
  qed
  with Cons show ?case by (simp add: startswith_iff_append)
qed

section \<open>The counters: one update\<close>

lemma update_counts_empty:
  "update_counts r [] =
     r\<lparr>total := total r + 1, correct := correct r + 1\<rparr>"
  by (simp add: update_counts_def)

lemma update_counts_nonempty:
  "m \<noteq> [] \<Longrightarrow> update_counts r m =
     r\<lparr>total := total r + 1, failed := failed r + 1,
       assertion_failed := assertion_failed r +
         (if str_contains ''Assertion failed'' m then 1 else 0)\<rparr>"
  by (simp add: update_counts_def Let_def)

text \<open>
  Claim C2. For every prior state and every outcome string, \<open>update_counts\<close> adds
  exactly 1 to \<open>total\<close>. An empty outcome adds 1 to \<open>correct\<close> and leaves \<open>failed\<close> and
  \<open>assertion_failed\<close> as they were. A non-empty outcome adds 1 to \<open>failed\<close>, leaves
  \<open>correct\<close> as it was, and adds 1 to \<open>assertion_failed\<close> exactly when the outcome has
  the form \<open>pre @ ''Assertion failed'' @ suf\<close>, that is, when it contains that text
  as a contiguous, case-sensitive substring. The record has no other field.
\<close>

theorem update_counts_effect:
  "update_counts r m =
     \<lparr>total = total r + 1,
      correct = (if m = [] then correct r + 1 else correct r),
      failed = (if m = [] then failed r else failed r + 1),
      assertion_failed =
        (if m \<noteq> [] \<and> (\<exists>pre suf. m = pre @ ''Assertion failed'' @ suf)
         then assertion_failed r + 1 else assertion_failed r)\<rparr>"
proof (cases "m = []")
  case True
  then show ?thesis by (simp add: update_counts_empty)
next
  case False
  then show ?thesis
    by (simp only: update_counts_nonempty [OF False] str_contains_iff_append [symmetric]) simp
qed

theorem update_counts_effect_witness:
  "update_counts \<lparr>total = 5, correct = 2, failed = 3, assertion_failed = 1\<rparr> [] =
     \<lparr>total = 6, correct = 3, failed = 3, assertion_failed = 1\<rparr>
   \<and> update_counts \<lparr>total = 5, correct = 2, failed = 3, assertion_failed = 1\<rparr>
        ''Error: Assertion failed at line 3'' =
     \<lparr>total = 6, correct = 2, failed = 4, assertion_failed = 2\<rparr>
   \<and> update_counts \<lparr>total = 5, correct = 2, failed = 3, assertion_failed = 1\<rparr>
        ''Error: assertion failed'' =
     \<lparr>total = 6, correct = 2, failed = 4, assertion_failed = 1\<rparr>"
proof -
  let ?r = "\<lparr>total = 5, correct = 2, failed = 3, assertion_failed = 1\<rparr>"
  have "str_contains ''Assertion failed'' ''Error: Assertion failed at line 3''"
    by simp
  then have a:
    "\<exists>pre suf. ''Error: Assertion failed at line 3'' = pre @ ''Assertion failed'' @ suf"
    by (rule iffD1 [OF str_contains_iff_append])
  have "\<not> str_contains ''Assertion failed'' ''Error: assertion failed''"
    by simp
  then have b:
    "\<not> (\<exists>pre suf. ''Error: assertion failed'' = pre @ ''Assertion failed'' @ suf)"
    using iffD2 [OF str_contains_iff_append] by blast
  show ?thesis
    using update_counts_effect [of ?r "[]"]
      update_counts_effect [of ?r "''Error: Assertion failed at line 3''"]
      update_counts_effect [of ?r "''Error: assertion failed''"] a b
    by simp
qed

section \<open>The counters: any sequence of updates\<close>

lemma update_counts_preserves:
  assumes "correct r + failed r = total r" and "assertion_failed r \<le> failed r"
  shows "correct (update_counts r m) + failed (update_counts r m) = total (update_counts r m)
       \<and> assertion_failed (update_counts r m) \<le> failed (update_counts r m)"
  using assms by (cases "m = []") (simp_all add: update_counts_empty update_counts_nonempty)

lemma foldl_update_counts_inv:
  "correct r + failed r = total r \<Longrightarrow> assertion_failed r \<le> failed r \<Longrightarrow>
   correct (foldl update_counts r ms) + failed (foldl update_counts r ms)
     = total (foldl update_counts r ms)
   \<and> assertion_failed (foldl update_counts r ms) \<le> failed (foldl update_counts r ms)"
proof (induction ms arbitrary: r)
  case Nil
  then show ?case by simp
next
  case (Cons m ms)
  from update_counts_preserves [OF Cons.prems, of m] show ?case
    by (simp add: Cons.IH)
qed

text \<open>
  Claim C1. Start from \<open>EvaluationResult()\<close> (all four counters 0) and call
  \<open>update_counts\<close> with any finite sequence \<open>ms\<close> of strings. In the state reached,
  \<open>correct + failed = total\<close>, \<open>assertion_failed \<le> failed\<close>, and the derived
  \<open>exception_failed\<close> is \<open>failed - assertion_failed\<close> (so it is never negative).
\<close>

theorem update_counts_invariant:
  "correct (foldl update_counts EvaluationResult_init ms)
     + failed (foldl update_counts EvaluationResult_init ms)
     = total (foldl update_counts EvaluationResult_init ms)
   \<and> assertion_failed (foldl update_counts EvaluationResult_init ms)
     \<le> failed (foldl update_counts EvaluationResult_init ms)
   \<and> exception_failed (foldl update_counts EvaluationResult_init ms)
     = failed (foldl update_counts EvaluationResult_init ms)
       - assertion_failed (foldl update_counts EvaluationResult_init ms)
   \<and> 0 \<le> exception_failed (foldl update_counts EvaluationResult_init ms)"
proof -
  have "correct EvaluationResult_init + failed EvaluationResult_init
          = total EvaluationResult_init"
    and "assertion_failed EvaluationResult_init \<le> failed EvaluationResult_init"
    by (simp_all add: EvaluationResult_init_def)
  from foldl_update_counts_inv [OF this, of ms] show ?thesis
    by (simp add: exception_failed_def)
qed

section \<open>Rendering the configured paths\<close>

lemmas path_defs = path_str_def load_parts_def parse_path_def splitroot_def posixpath_join_def
  join_step_def truediv_def Path_def PROJECT_ROOT_def BASE_RESULTS_PATH_def DATA_FILE_def

lemma path_str_DATA_FILE: "path_str DATA_FILE = ''humaneval_js.jsonl''"
  by (simp add: path_defs)

lemma candidate_task0:
  "path_str (candidate_path (truediv BASE_RESULTS_PATH ''gpt'') task0)
     = ''results-cleaned/gpt/HumanEval-0.js''"
  by (simp add: path_defs candidate_path_def task0_def str_replace_def)

section \<open>The candidate file path\<close>
























section \<open>One row of the loop\<close>

lemma evaluate_rows_executed:
  assumes "open_read rt tr (path_str (candidate_path model_path row)) = Returns c"
  shows "evaluate_rows rt model_path (row # rows) results tr =
     (case subprocess_run rt tr [''node'', ''-e'', c @ [CHR 0x0A, CHR 0x0A] @ test row] of
        Returns process \<Rightarrow>
          evaluate_rows rt model_path rows (update_counts results (stderr process))
            (tr @ [SubprocessRun [''node'', ''-e'', c @ [CHR 0x0A, CHR 0x0A] @ test row]])
      | Raises e \<Rightarrow>
          (tr @ [SubprocessRun [''node'', ''-e'', c @ [CHR 0x0A, CHR 0x0A] @ test row]], Raises e)
      | Hangs \<Rightarrow>
          (tr @ [SubprocessRun [''node'', ''-e'', c @ [CHR 0x0A, CHR 0x0A] @ test row]], Hangs))"
  using assms by (simp add: Let_def execute_js_test_def split: outcome.splits)

lemma evaluate_rows_extends:
  "\<exists>rest. fst (evaluate_rows rt model_path rows results tr) = tr @ rest"
proof (induction rows arbitrary: results tr)
  case Nil
  then show ?case by simp
next
  case (Cons row rows)
  show ?case
  proof (cases "open_read rt tr (path_str (candidate_path model_path row))")
    case opened: (Returns c)
    let ?ev = "SubprocessRun [''node'', ''-e'', c @ [CHR 0x0A, CHR 0x0A] @ test row]"
    show ?thesis
    proof (cases "subprocess_run rt tr [''node'', ''-e'', c @ [CHR 0x0A, CHR 0x0A] @ test row]")
      case (Returns process)
      from Cons.IH [of "update_counts results (stderr process)" "tr @ [?ev]"]
      obtain rest where
        "fst (evaluate_rows rt model_path rows (update_counts results (stderr process))
               (tr @ [?ev])) = (tr @ [?ev]) @ rest"
        by blast
      then show ?thesis
        unfolding evaluate_rows_executed [OF opened] using Returns by simp
    next
      case (Raises e)
      then show ?thesis
        unfolding evaluate_rows_executed [OF opened] by simp
    next
      case Hangs
      then show ?thesis
        unfolding evaluate_rows_executed [OF opened] by simp
    qed
  next
    case (Raises e)
    show ?thesis
    proof (cases "e = FileNotFoundError")
      case True
      let ?w = "Print (''Warning: File not found, skipping: ''
                        @ path_str (candidate_path model_path row))"
      from Cons.IH [of results "tr @ [?w]"]
      obtain rest where "fst (evaluate_rows rt model_path rows results (tr @ [?w]))
                           = (tr @ [?w]) @ rest"
        by blast
      then show ?thesis using Raises True by (simp add: Let_def)
    next
      case False
      then show ?thesis using Raises by (simp add: Let_def)
    qed
  next
    case Hangs
    then show ?thesis by (simp add: Let_def)
  qed
qed

text \<open>
  Claim C3. When the candidate file of a task does not exist (opening it raises
  \<open>FileNotFoundError\<close>), \<open>evaluate_model\<close>'s loop prints exactly one warning, which
  names the path, and goes on with the remaining tasks with all four counters as
  they were; with no task left it returns those unchanged counters.
\<close>

theorem missing_candidate_skipped:
  assumes "open_read rt tr (path_str (candidate_path model_path row)) = Raises FileNotFoundError"
  shows "evaluate_rows rt model_path (row # rows) results tr =
           evaluate_rows rt model_path rows results
             (tr @ [Print (''Warning: File not found, skipping: ''
                            @ path_str (candidate_path model_path row))])
       \<and> evaluate_rows rt model_path [row] results tr =
           (tr @ [Print (''Warning: File not found, skipping: ''
                            @ path_str (candidate_path model_path row))],
            Returns results)"
  using assms by (simp add: Let_def)

theorem missing_candidate_skipped_witness:
  "open_read (example_runtime (Returns [task0]) (Raises FileNotFoundError) Hangs) []
      (path_str (candidate_path (truediv BASE_RESULTS_PATH ''gpt'') task0))
     = Raises FileNotFoundError
   \<and> evaluate_model (example_runtime (Returns [task0]) (Raises FileNotFoundError) Hangs)
        ''gpt'' [task0] []
     = ([Print ''Warning: File not found, skipping: results-cleaned/gpt/HumanEval-0.js''],
        Returns \<lparr>total = 0, correct = 0, failed = 0, assertion_failed = 0\<rparr>)"
proof -
  let ?rt = "example_runtime (Returns [task0]) (Raises FileNotFoundError) Hangs"
  have h: "open_read ?rt [] (path_str (candidate_path (truediv BASE_RESULTS_PATH ''gpt'') task0))
             = Raises FileNotFoundError"
    by (simp add: example_runtime_def)
  from missing_candidate_skipped [OF h, of "[]" EvaluationResult_init] h show ?thesis
    by (simp add: evaluate_model_def candidate_task0 EvaluationResult_init_def)
qed

text \<open>
  Claim C4. When \<open>subprocess.run\<close> returns, \<open>execute_js_test\<close> returns exactly the
  standard-error text of the process; replacing the exit code and the standard
  output by anything else gives the same answer. \<open>update_counts\<close> then counts an
  empty text as correct and a non-empty one as failed.
\<close>

theorem outcome_is_stderr:
  assumes "subprocess_run rt tr [''node'', ''-e'', test_code] = Returns process"
  shows "execute_js_test rt test_code tr
           = (tr @ [SubprocessRun [''node'', ''-e'', test_code]], Returns (stderr process))
       \<and> snd (execute_js_test
                (rt\<lparr>subprocess_run :=
                      \<lambda>tr argv. Returns (process\<lparr>returncode := rc, stdout := out\<rparr>)\<rparr>)
                test_code tr)
           = Returns (stderr process)
       \<and> correct (update_counts results (stderr process))
           = (if stderr process = [] then correct results + 1 else correct results)
       \<and> failed (update_counts results (stderr process))
           = (if stderr process = [] then failed results else failed results + 1)"
  using assms
  by (cases "stderr process = []")
     (simp_all add: execute_js_test_def update_counts_empty update_counts_nonempty)

theorem outcome_is_stderr_witness:
  "subprocess_run
     (example_runtime (Returns [task0]) (Returns ''throw 1'')
        (Returns \<lparr>returncode = 0, stdout = ''ok'', stderr = ''Uncaught 1''\<rparr>))
     [] [''node'', ''-e'', ''throw 1'']
     = Returns \<lparr>returncode = 0, stdout = ''ok'', stderr = ''Uncaught 1''\<rparr>
   \<and> execute_js_test
       (example_runtime (Returns [task0]) (Returns ''throw 1'')
          (Returns \<lparr>returncode = 0, stdout = ''ok'', stderr = ''Uncaught 1''\<rparr>))
       ''throw 1'' []
     = ([SubprocessRun [''node'', ''-e'', ''throw 1'']], Returns ''Uncaught 1'')
   \<and> correct (update_counts EvaluationResult_init ''Uncaught 1'') = 0
   \<and> failed (update_counts EvaluationResult_init ''Uncaught 1'') = 1"
proof -
  let ?p = "\<lparr>returncode = 0, stdout = ''ok'', stderr = ''Uncaught 1''\<rparr>"
  let ?rt = "example_runtime (Returns [task0]) (Returns ''throw 1'') (Returns ?p)"
  have h: "subprocess_run ?rt [] [''node'', ''-e'', ''throw 1''] = Returns ?p"
    by (simp add: example_runtime_def)
  from outcome_is_stderr [where rc = 0 and out = "''ok''" and results = EvaluationResult_init,
      OF h] h
  show ?thesis
    by (simp add: EvaluationResult_init_def)
qed

text \<open>
  Claim C6. When the candidate file reads as \<open>c\<close>, the next thing the loop does is
  run \<open>node -e\<close> on the program \<open>c\<close>, two newlines, then the test snippet of the task:
  candidate first, a blank line, then the test. With the empty candidate and the
  test \<open>assert(1===1);\<close> the program is two newlines followed by that test.
\<close>

theorem program_is_candidate_then_test:
  assumes "open_read rt tr (path_str (candidate_path model_path row)) = Returns c"
  shows "\<exists>rest. fst (evaluate_rows rt model_path (row # rows) results tr)
           = tr @ SubprocessRun [''node'', ''-e'', c @ [CHR 0x0A, CHR 0x0A] @ test row] # rest"
proof (cases "subprocess_run rt tr [''node'', ''-e'', c @ [CHR 0x0A, CHR 0x0A] @ test row]")
  case (Returns process)
  let ?ev = "SubprocessRun [''node'', ''-e'', c @ [CHR 0x0A, CHR 0x0A] @ test row]"
  from evaluate_rows_extends [of rt model_path rows "update_counts results (stderr process)"
      "tr @ [?ev]"]
  obtain rest where
    "fst (evaluate_rows rt model_path rows (update_counts results (stderr process))
           (tr @ [?ev])) = (tr @ [?ev]) @ rest"
    by blast
  then show ?thesis unfolding evaluate_rows_executed [OF assms] using Returns by simp
next
  case (Raises e)
  then show ?thesis unfolding evaluate_rows_executed [OF assms] by simp
next
  case Hangs
  then show ?thesis unfolding evaluate_rows_executed [OF assms] by simp
qed

theorem program_is_candidate_then_test_witness:
  "open_read
     (example_runtime (Returns [task0]) (Returns [])
        (Returns \<lparr>returncode = 0, stdout = [], stderr = []\<rparr>))
     [] (path_str (candidate_path (truediv BASE_RESULTS_PATH ''gpt'') task0))
     = Returns []
   \<and> (\<exists>rest. fst (evaluate_rows
                     (example_runtime (Returns [task0]) (Returns [])
                        (Returns \<lparr>returncode = 0, stdout = [], stderr = []\<rparr>))
                     (truediv BASE_RESULTS_PATH ''gpt'') [task0] EvaluationResult_init [])
        = SubprocessRun [''node'', ''-e'', [CHR 0x0A, CHR 0x0A] @ ''assert(1===1);''] # rest)
   \<and> evaluate_model
       (example_runtime (Returns [task0]) (Returns [])
          (Returns \<lparr>returncode = 0, stdout = [], stderr = []\<rparr>))
       ''gpt'' [task0] []
     = ([SubprocessRun [''node'', ''-e'', [CHR 0x0A, CHR 0x0A] @ ''assert(1===1);'']],
        Returns \<lparr>total = 1, correct = 1, failed = 0, assertion_failed = 0\<rparr>)"
proof -
  let ?rt = "example_runtime (Returns [task0]) (Returns [])
               (Returns \<lparr>returncode = 0, stdout = [], stderr = []\<rparr>)"
  have h: "open_read ?rt [] (path_str (candidate_path (truediv BASE_RESULTS_PATH ''gpt'') task0))
             = Returns []"
    by (simp add: example_runtime_def candidate_task0)
  have t: "test task0 = ''assert(1===1);''"
    by (simp add: task0_def)
  have run: "subprocess_run ?rt tr argv = Returns \<lparr>returncode = 0, stdout = [], stderr = []\<rparr>"
    for tr argv
    by (simp add: example_runtime_def)
  have whole: "evaluate_model ?rt ''gpt'' [task0] []
     = ([SubprocessRun [''node'', ''-e'', [CHR 0x0A, CHR 0x0A] @ ''assert(1===1);'']],
        Returns \<lparr>total = 1, correct = 1, failed = 0, assertion_failed = 0\<rparr>)"
    unfolding evaluate_model_def Let_def evaluate_rows_executed [OF h]
    by (simp add: run t update_counts_empty EvaluationResult_init_def)
  from program_is_candidate_then_test [OF h, of "[]" EvaluationResult_init]
  have "\<exists>rest. fst (evaluate_rows ?rt (truediv BASE_RESULTS_PATH ''gpt'') [task0]
                      EvaluationResult_init [])
          = SubprocessRun [''node'', ''-e'', [CHR 0x0A, CHR 0x0A] @ ''assert(1===1);''] # rest"
    by (simp add: t)
  with h whole show ?thesis by blast
qed

section \<open>The entry point and the summary\<close>

text \<open>
  Claim C7. When the dataset file is absent (\<open>pd.read_json\<close> raises
  \<open>FileNotFoundError\<close>), \<open>main\<close> prints one line naming \<open>humaneval_js.jsonl\<close>, does
  nothing else (no program is run, no summary is printed) and returns normally,
  whatever list of models is configured.
\<close>

theorem dataset_missing_aborts:
  assumes "read_json rt tr (path_str DATA_FILE) = Raises FileNotFoundError"
  shows "main_with rt models tr
           = (tr @ [Print (''Error: The data file '' @ [CHR 0x27] @ ''humaneval_js.jsonl''
                            @ [CHR 0x27] @ '' was not found.'')],
              Returns ())
       \<and> main rt tr = main_with rt models tr"
  using assms by (simp add: main_def main_with_def path_str_DATA_FILE)

theorem dataset_missing_aborts_witness:
  "read_json (example_runtime (Raises FileNotFoundError) (Returns []) Hangs) []
       (path_str DATA_FILE)
     = Raises FileNotFoundError
   \<and> main_with (example_runtime (Raises FileNotFoundError) (Returns []) Hangs) [''gpt''] []
     = ([Print (''Error: The data file '' @ [CHR 0x27] @ ''humaneval_js.jsonl''
                 @ [CHR 0x27] @ '' was not found.'')],
        Returns ())
   \<and> main (example_runtime (Raises FileNotFoundError) (Returns []) Hangs) []
     = ([Print (''Error: The data file '' @ [CHR 0x27] @ ''humaneval_js.jsonl''
                 @ [CHR 0x27] @ '' was not found.'')],
        Returns ())"
proof -
  let ?rt = "example_runtime (Raises FileNotFoundError) (Returns []) Hangs"
  have h: "read_json ?rt [] (path_str DATA_FILE) = Raises FileNotFoundError"
    by (simp add: example_runtime_def)
  from dataset_missing_aborts [OF h, of "[''gpt'']"] h show ?thesis
    by simp
qed

lemma pass_rate_value:
  "pass_rate r =
     (if total r > 0
      then (if truediv_overflows (correct r) (total r) then Raises OverflowError
            else Returns (PyFloat (Times (TrueDiv (correct r) (total r)) 100)))
      else Returns (PyInt 0))"
  by (simp add: pass_rate_def py_truediv_def)

lemma exception_rate_value:
  "exception_rate r =
     (if failed r > 0
      then (if truediv_overflows (exception_failed r) (failed r) then Raises OverflowError
            else Returns (PyFloat (Times (TrueDiv (exception_failed r) (failed r)) 100)))
      else Returns (PyInt 0))"
  by (simp add: exception_rate_def py_truediv_def)

lemma truediv_within_range:
  assumes "0 \<le> a" and "a \<le> b" and "0 < b"
  shows "\<not> truediv_overflows a b"
proof -
  define K :: int where "K = 2 ^ 1024 - 2 ^ 970"
  have "1 < K" unfolding K_def by simp
  with \<open>0 < b\<close> have "b < K * b"
    by simp
  with \<open>a \<le> b\<close> have "\<not> K * b \<le> a"
    by linarith
  moreover from assms have "\<bar>a\<bar> = a" and "\<bar>b\<bar> = b"
    by simp_all
  ultimately have "\<not> K * \<bar>b\<bar> \<le> \<bar>a\<bar>"
    by simp
  then show ?thesis
    unfolding truediv_overflows_def K_def .
qed

lemma format_int_raises: "format_int rt i = Raises e \<Longrightarrow> e = ValueError"
  by (simp add: format_int_def split: if_splits)

lemma labelled_raises: "labelled rt label i = Raises e \<Longrightarrow> e = ValueError"
  by (cases "format_int rt i") (simp_all add: labelled_def format_int_raises)

lemma print_lines_raises:
  "snd (print_lines ls tr) = Raises e \<Longrightarrow> Raises e \<in> set ls"
proof (induction ls arbitrary: tr)
  case Nil
  then show ?case by simp
next
  case (Cons l ls)
  then show ?case by (cases l) auto
qed

lemma summary_lines_raises:
  assumes "Raises e \<in> set (summary_lines rt model_name r pr er)"
  shows "e = ValueError"
proof -
  let ?last = "labelled rt ''  - Exception Errors:      '' (exception_failed r)"
  from assms consider
      "labelled rt '' Total entries validated:  '' (total r) = Raises e"
    | "labelled rt '' Successful:               '' (correct r) = Raises e"
    | "labelled rt '' Failed (Total):           '' (failed r) = Raises e"
    | "labelled rt ''  - Assertion Errors:      '' (assertion_failed r) = Raises e"
    | "?last = Raises e"
    unfolding summary_lines_def
    by (cases ?last) auto
  then show ?thesis
    by cases (rule labelled_raises, assumption)+
qed

lemma print_summary_raises:
  assumes "snd (print_summary rt model_name r tr) = Raises e"
  shows "e = OverflowError \<or> e = ValueError"
proof (cases "pass_rate r")
  case pr: (Returns p)
  show ?thesis
  proof (cases "exception_rate r")
    case (Returns q)
    with pr assms have "snd (print_lines (summary_lines rt model_name r p q) tr) = Raises e"
      by (simp add: print_summary_def)
    then have "Raises e \<in> set (summary_lines rt model_name r p q)"
      by (rule print_lines_raises)
    then show ?thesis by (simp add: summary_lines_raises)
  next
    case (Raises x)
    with pr assms have "e = x" by (simp add: print_summary_def)
    with Raises show ?thesis
      by (simp add: exception_rate_value split: if_splits)
  next
    case Hangs
    with pr assms show ?thesis by (simp add: print_summary_def)
  qed
next
  case (Raises x)
  with assms have "e = x" by (simp add: print_summary_def)
  with Raises show ?thesis
    by (simp add: pass_rate_value split: if_splits)
next
  case Hangs
  with assms show ?thesis by (simp add: print_summary_def)
qed

text \<open>
  Claim C8, as stated for every \<open>EvaluationResult\<close>, fails: with \<open>total = 1\<close> and
  \<open>correct = 10^309\<close> the divisor is positive, but the quotient is too large for a
  double and the division raises \<open>OverflowError\<close>, so no pass rate is produced.
\<close>

theorem rate_overflow_counterexample:
  "0 < total \<lparr>total = 1, correct = 10 ^ 309, failed = 0, assertion_failed = 0\<rparr>
   \<and> pass_rate \<lparr>total = 1, correct = 10 ^ 309, failed = 0, assertion_failed = 0\<rparr>
       = Raises OverflowError"
  by (simp add: pass_rate_def py_truediv_def truediv_overflows_def)

text \<open>
  Claim C8, amended. For every \<open>EvaluationResult\<close> the rate computations never
  divide by zero: neither rate, nor \<open>print_summary\<close>, raises \<open>ZeroDivisionError\<close>.
  The pass rate is the integer 0 when \<open>total\<close> is not positive; otherwise it is the
  double that \<open>correct / total * 100\<close> gives (a rounded value), unless the quotient
  is too large for a double, when \<open>OverflowError\<close> is raised. The exception rate is
  the same with \<open>exception_failed\<close> and \<open>failed\<close>. When \<open>0 \<le> correct \<le> total\<close>, and
  when \<open>0 \<le> exception_failed \<le> failed\<close>, the quotient is at most 1 and the rate is
  returned.
\<close>

theorem rates_never_divide_by_zero:
  "pass_rate r \<noteq> Raises ZeroDivisionError
   \<and> exception_rate r \<noteq> Raises ZeroDivisionError
   \<and> snd (print_summary rt model_name r tr) \<noteq> Raises ZeroDivisionError
   \<and> pass_rate r =
       (if total r > 0
        then (if truediv_overflows (correct r) (total r) then Raises OverflowError
              else Returns (PyFloat (Times (TrueDiv (correct r) (total r)) 100)))
        else Returns (PyInt 0))
   \<and> exception_rate r =
       (if failed r > 0
        then (if truediv_overflows (exception_failed r) (failed r) then Raises OverflowError
              else Returns (PyFloat (Times (TrueDiv (exception_failed r) (failed r)) 100)))
        else Returns (PyInt 0))
   \<and> (0 \<le> correct r \<and> correct r \<le> total r
        \<longrightarrow> pass_rate r =
              (if total r > 0
               then Returns (PyFloat (Times (TrueDiv (correct r) (total r)) 100))
               else Returns (PyInt 0)))
   \<and> (0 \<le> exception_failed r \<and> exception_failed r \<le> failed r
        \<longrightarrow> exception_rate r =
              (if failed r > 0
               then Returns (PyFloat (Times (TrueDiv (exception_failed r) (failed r)) 100))
               else Returns (PyInt 0)))"
proof -
  have a: "pass_rate r \<noteq> Raises ZeroDivisionError"
    by (simp add: pass_rate_value)
  have b: "exception_rate r \<noteq> Raises ZeroDivisionError"
    by (simp add: exception_rate_value)
  have c: "snd (print_summary rt model_name r tr) \<noteq> Raises ZeroDivisionError"
    using print_summary_raises [of rt model_name r tr ZeroDivisionError] by auto
  have d: "0 \<le> correct r \<and> correct r \<le> total r
        \<longrightarrow> pass_rate r =
              (if total r > 0
               then Returns (PyFloat (Times (TrueDiv (correct r) (total r)) 100))
               else Returns (PyInt 0))"
    by (simp add: pass_rate_value truediv_within_range)
  have e: "0 \<le> exception_failed r \<and> exception_failed r \<le> failed r
        \<longrightarrow> exception_rate r =
              (if failed r > 0
               then Returns (PyFloat (Times (TrueDiv (exception_failed r) (failed r)) 100))
               else Returns (PyInt 0))"
    by (simp add: exception_rate_value truediv_within_range)
  show ?thesis
    by (intro conjI) (rule a b c d e pass_rate_value exception_rate_value)+
qed

theorem rates_never_divide_by_zero_witness:
  "pass_rate \<lparr>total = 4, correct = 3, failed = 1, assertion_failed = 0\<rparr>
     = Returns (PyFloat (Times (TrueDiv 3 4) 100))
   \<and> exception_rate \<lparr>total = 4, correct = 3, failed = 1, assertion_failed = 0\<rparr>
     = Returns (PyFloat (Times (TrueDiv 1 1) 100))
   \<and> pass_rate EvaluationResult_init = Returns (PyInt 0)
   \<and> exception_rate EvaluationResult_init = Returns (PyInt 0)"
proof -
  let ?r = "\<lparr>total = 4, correct = 3, failed = 1, assertion_failed = 0\<rparr>"
  have h: "0 \<le> correct ?r \<and> correct ?r \<le> total ?r"
    "0 \<le> exception_failed ?r \<and> exception_failed ?r \<le> failed ?r"
    by (simp_all add: exception_failed_def)
  have h0: "0 \<le> correct EvaluationResult_init
              \<and> correct EvaluationResult_init \<le> total EvaluationResult_init"
    "0 \<le> exception_failed EvaluationResult_init
      \<and> exception_failed EvaluationResult_init \<le> failed EvaluationResult_init"
    by (simp_all add: exception_failed_def EvaluationResult_init_def)
  note t = rates_never_divide_by_zero [THEN conjunct2, THEN conjunct2, THEN conjunct2,
      THEN conjunct2, THEN conjunct2]
  note p = t [THEN conjunct1, rule_format]
  note x = t [THEN conjunct2, rule_format]
  from p [OF h(1)] x [OF h(2)] p [OF h0(1)] x [OF h0(2)] show ?thesis
    by (simp add: exception_failed_def EvaluationResult_init_def)
qed

text \<open>
  Claim C10. The shipped \<open>LLM_MODELS\<close> is the empty list, so when the dataset loads
  \<open>main\<close> leaves the trace as it was (no program run, nothing printed) and returns.
\<close>

theorem shipped_model_list_is_empty:
  "LLM_MODELS = []
   \<and> (read_json rt tr (path_str DATA_FILE) = Returns df \<longrightarrow> main rt tr = (tr, Returns ()))"
  by (simp add: LLM_MODELS_def main_def main_with_def)

theorem shipped_model_list_is_empty_witness:
  "read_json
     (example_runtime (Returns [task0]) (Returns [])
        (Returns \<lparr>returncode = 0, stdout = [], stderr = []\<rparr>))
     [] (path_str DATA_FILE)
     = Returns [task0]
   \<and> main
       (example_runtime (Returns [task0]) (Returns [])
          (Returns \<lparr>returncode = 0, stdout = [], stderr = []\<rparr>))
       []
     = ([], Returns ())"
proof -
  let ?rt = "example_runtime (Returns [task0]) (Returns [])
               (Returns \<lparr>returncode = 0, stdout = [], stderr = []\<rparr>)"
  have h: "read_json ?rt [] (path_str DATA_FILE) = Returns [task0]"
    by (simp add: example_runtime_def path_str_DATA_FILE)
  from shipped_model_list_is_empty [of ?rt "[]" "[task0]"] h show ?thesis
    by simp
qed

section \<open>Exceptions\<close>

text \<open>
  The script has two handlers, both for \<open>FileNotFoundError\<close>: around
  \<open>pd.read_json\<close> in \<open>main\<close> and around reading the candidate file in
  \<open>evaluate_model\<close>. The call of \<open>execute_js_test\<close> lies outside both. The lemmas
  below cut a run at any task of any model: what the loops did before that point
  does not change what happens there.
\<close>

lemma evaluate_rows_unreadable:
  assumes "open_read rt tr (path_str (candidate_path model_path row)) = Raises e"
    and "e \<noteq> FileNotFoundError"
  shows "evaluate_rows rt model_path (row # rows) results tr = (tr, Raises e)"
  using assms by (simp add: Let_def)

lemma main_with_loaded:
  "read_json rt tr (path_str DATA_FILE) = Returns df \<Longrightarrow>
   main_with rt models tr = evaluate_models rt df models tr"
  by (simp add: main_with_def)

lemma candidate_task1:
  "path_str (candidate_path (truediv BASE_RESULTS_PATH ''gpt'') task1)
     = ''results-cleaned/gpt/HumanEval-1.js''"
  by (simp add: path_defs candidate_path_def task1_def str_replace_def)

lemma evaluate_rows_append:
  "evaluate_rows rt model_path rows1 results tr = (tr1, Returns results1) \<Longrightarrow>
   evaluate_rows rt model_path (rows1 @ rows2) results tr
     = evaluate_rows rt model_path rows2 results1 tr1"
proof (induction rows1 arbitrary: results tr)
  case Nil
  then show ?case by simp
next
  case (Cons row rows1)
  show ?case
  proof (cases "open_read rt tr (path_str (candidate_path model_path row))")
    case opened: (Returns c)
    let ?argv = "[''node'', ''-e'', c @ [CHR 0x0A, CHR 0x0A] @ test row]"
    note short = evaluate_rows_executed [where rows = rows1 and results = results, OF opened]
    note long = evaluate_rows_executed [where rows = "rows1 @ rows2" and results = results,
        OF opened]
    show ?thesis
    proof (cases "subprocess_run rt tr ?argv")
      case (Returns process)
      with Cons.prems
      have "evaluate_rows rt model_path rows1 (update_counts results (stderr process))
              (tr @ [SubprocessRun ?argv]) = (tr1, Returns results1)"
        unfolding short by simp
      from Cons.IH [OF this] show ?thesis
        unfolding append_Cons long using Returns by simp
    next
      case (Raises e)
      with Cons.prems show ?thesis unfolding short by simp
    next
      case Hangs
      with Cons.prems show ?thesis unfolding short by simp
    qed
  next
    case (Raises e)
    show ?thesis
    proof (cases "e = FileNotFoundError")
      case True
      let ?w = "Print (''Warning: File not found, skipping: ''
                        @ path_str (candidate_path model_path row))"
      from Cons.prems Raises True
      have "evaluate_rows rt model_path rows1 results (tr @ [?w]) = (tr1, Returns results1)"
        by (simp add: Let_def)
      from Cons.IH [OF this] show ?thesis
        using Raises True by (simp add: Let_def)
    next
      case False
      with Cons.prems Raises show ?thesis by (simp add: Let_def)
    qed
  next
    case Hangs
    with Cons.prems show ?thesis by (simp add: Let_def)
  qed
qed

lemma evaluate_models_append:
  "evaluate_models rt df models1 tr = (tr1, Returns ()) \<Longrightarrow>
   evaluate_models rt df (models1 @ models2) tr = evaluate_models rt df models2 tr1"
proof (induction models1 arbitrary: tr)
  case Nil
  then show ?case by simp
next
  case (Cons llm llms)
  obtain tra ra where ev: "evaluate_model rt llm df tr = (tra, ra)"
    by (cases "evaluate_model rt llm df tr")
  show ?case
  proof (cases ra)
    case (Returns model_results)
    obtain trb rb where ps: "print_summary rt llm model_results tra = (trb, rb)"
      by (cases "print_summary rt llm model_results tra")
    show ?thesis
    proof (cases rb)
      case printed: (Returns u)
      from Cons.prems ev Returns ps printed
      have "evaluate_models rt df llms trb = (tr1, Returns ())"
        by simp
      from Cons.IH [OF this] show ?thesis
        using ev Returns ps printed by simp
    next
      case (Raises e)
      with Cons.prems ev Returns ps show ?thesis by simp
    next
      case Hangs
      with Cons.prems ev Returns ps show ?thesis by simp
    qed
  next
    case (Raises e)
    with Cons.prems ev show ?thesis by simp
  next
    case Hangs
    with Cons.prems ev show ?thesis by simp
  qed
qed

lemma evaluate_models_raises:
  assumes "evaluate_models rt df models1 tr = (tr1, Returns ())"
    and "evaluate_rows rt (truediv BASE_RESULTS_PATH llm) df EvaluationResult_init tr1
           = (tr2, Raises e)"
  shows "evaluate_models rt df (models1 @ llm # models2) tr = (tr2, Raises e)"
  unfolding evaluate_models_append [OF assms(1)]
  using assms(2) by (simp add: evaluate_model_def)

text \<open>
  Claim C9, as stated, fails: an exception can escape \<open>main\<close>. A candidate file that
  is not valid UTF-8 makes reading it raise \<open>UnicodeDecodeError\<close>, which leaves
  \<open>evaluate_model\<close> and \<open>main\<close>; a dataset file that exists but does not parse makes
  \<open>pd.read_json\<close> raise \<open>ValueError\<close>, which leaves \<open>main\<close> as shipped.
\<close>

theorem uncaught_exception_escapes:
  "main_with (example_runtime (Returns [task0]) (Raises UnicodeDecodeError) Hangs) [''gpt''] []
     = ([], Raises UnicodeDecodeError)
   \<and> main (example_runtime (Raises ValueError) (Returns []) Hangs) []
     = ([], Raises ValueError)"
proof -
  let ?rt = "example_runtime (Returns [task0]) (Raises UnicodeDecodeError) Hangs"
  have d: "read_json ?rt [] (path_str DATA_FILE) = Returns [task0]"
    by (simp add: example_runtime_def path_str_DATA_FILE)
  have o: "open_read ?rt [] (path_str (candidate_path (truediv BASE_RESULTS_PATH ''gpt'') task0))
             = Raises UnicodeDecodeError"
    by (simp add: example_runtime_def candidate_task0)
  have "evaluate_model ?rt ''gpt'' [task0] [] = ([], Raises UnicodeDecodeError)"
    unfolding evaluate_model_def Let_def by (rule evaluate_rows_unreadable [OF o]) simp
  then have a: "main_with ?rt [''gpt''] [] = ([], Raises UnicodeDecodeError)"
    unfolding main_with_loaded [OF d] by simp
  have b: "main (example_runtime (Raises ValueError) (Returns []) Hangs) []
             = ([], Raises ValueError)"
    by (simp add: main_def main_with_def example_runtime_def path_str_DATA_FILE)
  from a b show ?thesis by blast
qed

text \<open>
  Claim C9, amended. The only exception the script handles is \<open>FileNotFoundError\<close>,
  in two places: raised by loading the dataset, \<open>main\<close> returns normally; raised by
  opening a candidate file, the loop goes on with the next task. A program that
  runs to its end is counted, whatever it wrote to standard error, and the loop
  goes on. Every other exception is uncaught and leaves \<open>main\<close>: one raised by
  loading the dataset at once; one raised by reading the candidate file of any task
  of any configured model, or by \<open>subprocess.run\<close> for it, at that point of the run,
  with the remaining tasks and models not visited and no summary printed for that
  model.
\<close>

theorem only_uncaught_exceptions_escape:
  "(read_json rt tr (path_str DATA_FILE) = Raises FileNotFoundError
     \<longrightarrow> snd (main_with rt models tr) = Returns ())
   \<and> (open_read rt tr (path_str (candidate_path model_path row)) = Raises FileNotFoundError
     \<longrightarrow> evaluate_rows rt model_path (row # rows) results tr
         = evaluate_rows rt model_path rows results
             (tr @ [Print (''Warning: File not found, skipping: ''
                            @ path_str (candidate_path model_path row))]))
   \<and> (open_read rt tr (path_str (candidate_path model_path row)) = Returns c
        \<and> subprocess_run rt tr [''node'', ''-e'', c @ [CHR 0x0A, CHR 0x0A] @ test row]
            = Returns process
     \<longrightarrow> evaluate_rows rt model_path (row # rows) results tr
         = evaluate_rows rt model_path rows (update_counts results (stderr process))
             (tr @ [SubprocessRun [''node'', ''-e'', c @ [CHR 0x0A, CHR 0x0A] @ test row]]))
   \<and> (read_json rt tr (path_str DATA_FILE) = Raises e \<and> e \<noteq> FileNotFoundError
     \<longrightarrow> main_with rt models tr = (tr, Raises e))
   \<and> (read_json rt tr (path_str DATA_FILE) = Returns (rows1 @ row # rows2)
        \<and> evaluate_models rt (rows1 @ row # rows2) models1 tr = (tr1, Returns ())
        \<and> evaluate_rows rt (truediv BASE_RESULTS_PATH llm) rows1 EvaluationResult_init tr1
            = (tr2, Returns results2)
        \<and> open_read rt tr2 (path_str (candidate_path (truediv BASE_RESULTS_PATH llm) row))
            = Raises e
        \<and> e \<noteq> FileNotFoundError
     \<longrightarrow> main_with rt (models1 @ llm # models2) tr = (tr2, Raises e))
   \<and> (read_json rt tr (path_str DATA_FILE) = Returns (rows1 @ row # rows2)
        \<and> evaluate_models rt (rows1 @ row # rows2) models1 tr = (tr1, Returns ())
        \<and> evaluate_rows rt (truediv BASE_RESULTS_PATH llm) rows1 EvaluationResult_init tr1
            = (tr2, Returns results2)
        \<and> open_read rt tr2 (path_str (candidate_path (truediv BASE_RESULTS_PATH llm) row))
            = Returns c
        \<and> subprocess_run rt tr2 [''node'', ''-e'', c @ [CHR 0x0A, CHR 0x0A] @ test row]
            = Raises e
     \<longrightarrow> main_with rt (models1 @ llm # models2) tr
         = (tr2 @ [SubprocessRun [''node'', ''-e'', c @ [CHR 0x0A, CHR 0x0A] @ test row]],
            Raises e))"
proof (intro conjI impI)
  assume "read_json rt tr (path_str DATA_FILE) = Raises FileNotFoundError"
  then show "snd (main_with rt models tr) = Returns ()"
    by (simp add: main_with_def)
next
  assume "open_read rt tr (path_str (candidate_path model_path row)) = Raises FileNotFoundError"
  then show "evaluate_rows rt model_path (row # rows) results tr
         = evaluate_rows rt model_path rows results
             (tr @ [Print (''Warning: File not found, skipping: ''
                            @ path_str (candidate_path model_path row))])"
    by (simp add: Let_def)
next
  assume a: "open_read rt tr (path_str (candidate_path model_path row)) = Returns c
        \<and> subprocess_run rt tr [''node'', ''-e'', c @ [CHR 0x0A, CHR 0x0A] @ test row]
            = Returns process"
  then have opened: "open_read rt tr (path_str (candidate_path model_path row)) = Returns c"
    by simp
  from a show "evaluate_rows rt model_path (row # rows) results tr
         = evaluate_rows rt model_path rows (update_counts results (stderr process))
             (tr @ [SubprocessRun [''node'', ''-e'', c @ [CHR 0x0A, CHR 0x0A] @ test row]])"
    unfolding evaluate_rows_executed [OF opened] by simp
next
  assume "read_json rt tr (path_str DATA_FILE) = Raises e \<and> e \<noteq> FileNotFoundError"
  then show "main_with rt models tr = (tr, Raises e)"
    by (simp add: main_with_def)
next
  let ?mp = "truediv BASE_RESULTS_PATH llm"
  assume a: "read_json rt tr (path_str DATA_FILE) = Returns (rows1 @ row # rows2)
        \<and> evaluate_models rt (rows1 @ row # rows2) models1 tr = (tr1, Returns ())
        \<and> evaluate_rows rt ?mp rows1 EvaluationResult_init tr1 = (tr2, Returns results2)
        \<and> open_read rt tr2 (path_str (candidate_path ?mp row)) = Raises e
        \<and> e \<noteq> FileNotFoundError"
  then have loaded: "read_json rt tr (path_str DATA_FILE) = Returns (rows1 @ row # rows2)"
    and before: "evaluate_models rt (rows1 @ row # rows2) models1 tr = (tr1, Returns ())"
    and prefix: "evaluate_rows rt ?mp rows1 EvaluationResult_init tr1 = (tr2, Returns results2)"
    and raised: "open_read rt tr2 (path_str (candidate_path ?mp row)) = Raises e"
    and uncaught: "e \<noteq> FileNotFoundError"
    by simp_all
  have "evaluate_rows rt ?mp (rows1 @ row # rows2) EvaluationResult_init tr1 = (tr2, Raises e)"
    unfolding evaluate_rows_append [OF prefix]
    using raised uncaught by (rule evaluate_rows_unreadable)
  with before have "evaluate_models rt (rows1 @ row # rows2) (models1 @ llm # models2) tr
                      = (tr2, Raises e)"
    by (rule evaluate_models_raises)
  then show "main_with rt (models1 @ llm # models2) tr = (tr2, Raises e)"
    unfolding main_with_loaded [OF loaded] .
next
  let ?mp = "truediv BASE_RESULTS_PATH llm"
  let ?argv = "[''node'', ''-e'', c @ [CHR 0x0A, CHR 0x0A] @ test row]"
  assume a: "read_json rt tr (path_str DATA_FILE) = Returns (rows1 @ row # rows2)
        \<and> evaluate_models rt (rows1 @ row # rows2) models1 tr = (tr1, Returns ())
        \<and> evaluate_rows rt ?mp rows1 EvaluationResult_init tr1 = (tr2, Returns results2)
        \<and> open_read rt tr2 (path_str (candidate_path ?mp row)) = Returns c
        \<and> subprocess_run rt tr2 ?argv = Raises e"
  then have loaded: "read_json rt tr (path_str DATA_FILE) = Returns (rows1 @ row # rows2)"
    and before: "evaluate_models rt (rows1 @ row # rows2) models1 tr = (tr1, Returns ())"
    and prefix: "evaluate_rows rt ?mp rows1 EvaluationResult_init tr1 = (tr2, Returns results2)"
    and opened: "open_read rt tr2 (path_str (candidate_path ?mp row)) = Returns c"
    and raised: "subprocess_run rt tr2 ?argv = Raises e"
    by simp_all
  have "evaluate_rows rt ?mp (rows1 @ row # rows2) EvaluationResult_init tr1
          = (tr2 @ [SubprocessRun ?argv], Raises e)"
    unfolding evaluate_rows_append [OF prefix] evaluate_rows_executed [OF opened]
    using raised by simp
  with before have "evaluate_models rt (rows1 @ row # rows2) (models1 @ llm # models2) tr
                      = (tr2 @ [SubprocessRun ?argv], Raises e)"
    by (rule evaluate_models_raises)
  then show "main_with rt (models1 @ llm # models2) tr
               = (tr2 @ [SubprocessRun ?argv], Raises e)"
    unfolding main_with_loaded [OF loaded] .
qed

theorem only_uncaught_exceptions_escape_witness:
  "snd (main_with (example_runtime (Raises FileNotFoundError) (Returns []) Hangs) [''gpt''] [])
     = Returns ()
   \<and> evaluate_rows (example_runtime (Returns [task1]) (Returns []) Hangs)
       (truediv BASE_RESULTS_PATH ''gpt'') [task1] EvaluationResult_init []
     = ([Print ''Warning: File not found, skipping: results-cleaned/gpt/HumanEval-1.js''],
        Returns EvaluationResult_init)
   \<and> evaluate_rows
       (example_runtime (Returns [task0]) (Returns ''throw 1'')
          (Returns \<lparr>returncode = 1, stdout = [], stderr = ''Uncaught 1''\<rparr>))
       (truediv BASE_RESULTS_PATH ''gpt'') [task0] EvaluationResult_init []
     = ([SubprocessRun [''node'', ''-e'', ''throw 1'' @ [CHR 0x0A, CHR 0x0A] @ test task0]],
        Returns \<lparr>total = 1, correct = 0, failed = 1, assertion_failed = 0\<rparr>)
   \<and> main_with (example_runtime (Raises ValueError) (Returns []) Hangs) [''gpt''] []
     = ([], Raises ValueError)
   \<and> main_with (example_runtime (Returns [task1, task0]) (Raises PermissionError) Hangs)
       [''gpt'', ''other''] []
     = ([Print ''Warning: File not found, skipping: results-cleaned/gpt/HumanEval-1.js''],
        Raises PermissionError)
   \<and> main_with
       (example_runtime (Returns [task1, task0]) (Returns []) (Raises FileNotFoundError))
       [''gpt'', ''other''] []
     = ([Print ''Warning: File not found, skipping: results-cleaned/gpt/HumanEval-1.js'',
         SubprocessRun [''node'', ''-e'', [] @ [CHR 0x0A, CHR 0x0A] @ test task0]],
        Raises FileNotFoundError)"
proof -
  let ?mp = "truediv BASE_RESULTS_PATH ''gpt''"
  let ?w1 = "Print ''Warning: File not found, skipping: results-cleaned/gpt/HumanEval-1.js''"
  let ?rtA = "example_runtime (Raises FileNotFoundError) (Returns []) Hangs"
  let ?rtB = "example_runtime (Returns [task1]) (Returns []) Hangs"
  let ?p = "\<lparr>returncode = 1, stdout = [], stderr = ''Uncaught 1''\<rparr>"
  let ?rtC = "example_runtime (Returns [task0]) (Returns ''throw 1'') (Returns ?p)"
  let ?rtD = "example_runtime (Raises ValueError) (Returns []) Hangs"
  let ?rtE = "example_runtime (Returns [task1, task0]) (Raises PermissionError) Hangs"
  let ?rtF = "example_runtime (Returns [task1, task0]) (Returns []) (Raises FileNotFoundError)"
  note T = only_uncaught_exceptions_escape
  have skip1: "evaluate_rows rt ?mp [task1] EvaluationResult_init [] = ([?w1], Returns EvaluationResult_init)"
    if "open_read rt [] ''results-cleaned/gpt/HumanEval-1.js'' = Raises FileNotFoundError" for rt
    using that by (simp add: Let_def candidate_task1)

  have hA: "read_json ?rtA [] (path_str DATA_FILE) = Raises FileNotFoundError"
    by (simp add: example_runtime_def path_str_DATA_FILE)
  note cA = T [where rt = ?rtA and tr = "[]" and models = "[''gpt'']",
      THEN conjunct1, rule_format, OF hA]

  have hB: "open_read ?rtB [] (path_str (candidate_path ?mp task1)) = Raises FileNotFoundError"
    by (simp add: example_runtime_def candidate_task1)
  from T [where rt = ?rtB and tr = "[]" and model_path = ?mp and row = task1 and rows = "[]"
      and results = EvaluationResult_init,
      THEN conjunct2, THEN conjunct1, rule_format, OF hB]
  have cB: "evaluate_rows ?rtB ?mp [task1] EvaluationResult_init []
              = ([?w1], Returns EvaluationResult_init)"
    by (simp add: candidate_task1)

  have hC: "open_read ?rtC [] (path_str (candidate_path ?mp task0)) = Returns ''throw 1''
      \<and> subprocess_run ?rtC [] [''node'', ''-e'', ''throw 1'' @ [CHR 0x0A, CHR 0x0A] @ test task0]
          = Returns ?p"
    by (simp add: example_runtime_def candidate_task0)
  from T [where rt = ?rtC and tr = "[]" and model_path = ?mp and row = task0 and rows = "[]"
      and results = EvaluationResult_init and c = "''throw 1''" and process = ?p,
      THEN conjunct2, THEN conjunct2, THEN conjunct1, rule_format, OF hC]
  have cC: "evaluate_rows ?rtC ?mp [task0] EvaluationResult_init []
     = ([SubprocessRun [''node'', ''-e'', ''throw 1'' @ [CHR 0x0A, CHR 0x0A] @ test task0]],
        Returns \<lparr>total = 1, correct = 0, failed = 1, assertion_failed = 0\<rparr>)"
    by (simp add: update_counts_nonempty EvaluationResult_init_def)

  have hD: "read_json ?rtD [] (path_str DATA_FILE) = Raises ValueError
      \<and> ValueError \<noteq> FileNotFoundError"
    by (simp add: example_runtime_def path_str_DATA_FILE)
  note cD = T [where rt = ?rtD and tr = "[]" and models = "[''gpt'']" and e = ValueError,
      THEN conjunct2, THEN conjunct2, THEN conjunct2, THEN conjunct1, rule_format, OF hD]

  have lE: "read_json ?rtE [] (path_str DATA_FILE) = Returns ([task1] @ task0 # [])"
    by (simp add: example_runtime_def path_str_DATA_FILE)
  have mE: "evaluate_models ?rtE ([task1] @ task0 # []) [] [] = ([], Returns ())"
    by simp
  have "open_read ?rtE [] ''results-cleaned/gpt/HumanEval-1.js'' = Raises FileNotFoundError"
    by (simp add: example_runtime_def)
  note sE = skip1 [OF this]
  have oE: "open_read ?rtE [?w1] (path_str (candidate_path ?mp task0)) = Raises PermissionError"
    by (simp add: example_runtime_def candidate_task0)
  have hE: "read_json ?rtE [] (path_str DATA_FILE) = Returns ([task1] @ task0 # [])
      \<and> evaluate_models ?rtE ([task1] @ task0 # []) [] [] = ([], Returns ())
      \<and> evaluate_rows ?rtE ?mp [task1] EvaluationResult_init []
          = ([?w1], Returns EvaluationResult_init)
      \<and> open_read ?rtE [?w1] (path_str (candidate_path ?mp task0)) = Raises PermissionError
      \<and> PermissionError \<noteq> FileNotFoundError"
    by (intro conjI lE mE sE oE) simp
  from T [where rt = ?rtE and tr = "[]" and ?rows1.0 = "[task1]" and row = task0 and ?rows2.0 = "[]"
      and ?models1.0 = "[]" and llm = "''gpt''" and ?models2.0 = "[''other'']"
      and ?tr1.0 = "[]" and ?tr2.0 = "[?w1]" and ?results2.0 = EvaluationResult_init
      and e = PermissionError,
      THEN conjunct2, THEN conjunct2, THEN conjunct2, THEN conjunct2, THEN conjunct1,
      rule_format, OF hE]
  have cE: "main_with ?rtE [''gpt'', ''other''] [] = ([?w1], Raises PermissionError)"
    by simp

  have lF: "read_json ?rtF [] (path_str DATA_FILE) = Returns ([task1] @ task0 # [])"
    by (simp add: example_runtime_def path_str_DATA_FILE)
  have mF: "evaluate_models ?rtF ([task1] @ task0 # []) [] [] = ([], Returns ())"
    by simp
  have "open_read ?rtF [] ''results-cleaned/gpt/HumanEval-1.js'' = Raises FileNotFoundError"
    by (simp add: example_runtime_def)
  note sF = skip1 [OF this]
  have oF: "open_read ?rtF [?w1] (path_str (candidate_path ?mp task0)) = Returns []"
    by (simp add: example_runtime_def candidate_task0)
  have pF: "subprocess_run ?rtF [?w1] [''node'', ''-e'', [] @ [CHR 0x0A, CHR 0x0A] @ test task0]
              = Raises FileNotFoundError"
    by (simp add: example_runtime_def)
  have hF: "read_json ?rtF [] (path_str DATA_FILE) = Returns ([task1] @ task0 # [])
      \<and> evaluate_models ?rtF ([task1] @ task0 # []) [] [] = ([], Returns ())
      \<and> evaluate_rows ?rtF ?mp [task1] EvaluationResult_init []
          = ([?w1], Returns EvaluationResult_init)
      \<and> open_read ?rtF [?w1] (path_str (candidate_path ?mp task0)) = Returns []
      \<and> subprocess_run ?rtF [?w1] [''node'', ''-e'', [] @ [CHR 0x0A, CHR 0x0A] @ test task0]
          = Raises FileNotFoundError"
    by (intro conjI lF mF sF oF pF)
  from T [where rt = ?rtF and tr = "[]" and ?rows1.0 = "[task1]" and row = task0 and ?rows2.0 = "[]"
      and ?models1.0 = "[]" and llm = "''gpt''" and ?models2.0 = "[''other'']"
      and ?tr1.0 = "[]" and ?tr2.0 = "[?w1]" and ?results2.0 = EvaluationResult_init
      and e = FileNotFoundError and c = "[]",
      THEN conjunct2, THEN conjunct2, THEN conjunct2, THEN conjunct2, THEN conjunct2,
      rule_format, OF hF]
  have cF: "main_with ?rtF [''gpt'', ''other''] []
     = ([?w1, SubprocessRun [''node'', ''-e'', [] @ [CHR 0x0A, CHR 0x0A] @ test task0]],
        Raises FileNotFoundError)"
    by simp

  from cA cB cC cD cE cF show ?thesis by (intro conjI)
qed

end
